theory Spec2Isabelle
  imports Complex_Main
begin

section \<open>Exceptions\<close>

text \<open>
  The Python exceptions that the modelled functions raise or let through. Floating-point
  numbers are modelled as real numbers: rounding, infinities and NaN are outside the model.
\<close>

datatype py_error = ZeroDivisionError | AssertionError | RuntimeError | OtherError string

section \<open>RunningAverage (fedgkt/utils.py)\<close>

text \<open>
  The accumulator has the two fields of the class: \<open>steps\<close>, a Python integer, and
  \<open>total\<close>, the sum of the values seen so far.
\<close>

record RunningAverage =
  steps :: int
  total :: real

definition RunningAverage_init :: RunningAverage where
  "RunningAverage_init = \<lparr>steps = 0, total = 0\<rparr>"

definition update :: "RunningAverage \<Rightarrow> real \<Rightarrow> RunningAverage" where
  "update self val = self\<lparr>total := total self + val, steps := steps self + 1\<rparr>"

text \<open>
  \<open>self.total / float(self.steps)\<close>: Python's true division raises ZeroDivisionError
  when the divisor is \<open>0.0\<close>.
\<close>

definition RunningAverage_value :: "RunningAverage \<Rightarrow> py_error + real" where
  "RunningAverage_value self =
     (if real_of_int (steps self) = 0 then Inl ZeroDivisionError
      else Inr (total self / real_of_int (steps self)))"

section \<open>Flattening parameters (fedgkt/utils.py)\<close>














section \<open>Two-dimensional tensors (fedgkt/utils.py)\<close>

text \<open>
  A batch of logits or probabilities is the list of its rows; \<open>is_matrix n k m\<close> says
  that \<open>m\<close> has \<open>n\<close> rows of \<open>k\<close> entries. \<open>size0\<close> and \<open>size1\<close> read \<open>m.size(0)\<close> and
  \<open>m.size(1)\<close>; a tensor with no rows is the empty list, and its \<open>size1\<close> reads 0.
\<close>

type_synonym matrix = "real list list"

definition size0 :: "matrix \<Rightarrow> nat" where
  "size0 m = length m"

definition size1 :: "matrix \<Rightarrow> nat" where
  "size1 m = (case m of [] \<Rightarrow> 0 | r # _ \<Rightarrow> length r)"

definition is_matrix :: "nat \<Rightarrow> nat \<Rightarrow> matrix \<Rightarrow> bool" where
  "is_matrix n k m = (length m = n \<and> list_all (\<lambda>r. length r = k) m)"

text \<open>The tensor with entry \<open>f i j\<close> at row \<open>i\<close> and column \<open>j\<close>.\<close>

definition mk_mat :: "nat \<Rightarrow> nat \<Rightarrow> (nat \<Rightarrow> nat \<Rightarrow> real) \<Rightarrow> matrix" where
  "mk_mat n k f = map (\<lambda>i. map (\<lambda>j. f i j) [0..<k]) [0..<n]"

text \<open>\<open>torch.sum(m)\<close> and \<open>m.sum()\<close>: the sum of all entries.\<close>

definition msum :: "matrix \<Rightarrow> real" where
  "msum m = sum_list (map sum_list m)"

text \<open>\<open>m.t()\<close>.\<close>

definition mat_t :: "matrix \<Rightarrow> matrix" where
  "mat_t m = mk_mat (size1 m) (size0 m) (\<lambda>i j. m ! j ! i)"

text \<open>Entrywise operations on tensors of one shape, and operations with a scalar.\<close>

definition mat_add :: "matrix \<Rightarrow> matrix \<Rightarrow> matrix" where
  "mat_add p q = map2 (map2 (+)) p q"

definition mat_mul :: "matrix \<Rightarrow> matrix \<Rightarrow> matrix" where
  "mat_mul p q = map2 (map2 (*)) p q"

definition mat_div :: "matrix \<Rightarrow> real \<Rightarrow> matrix" where
  "mat_div p c = map (map (\<lambda>v. v / c)) p"

definition mat_add_scalar :: "matrix \<Rightarrow> real \<Rightarrow> matrix" where
  "mat_add_scalar p c = map (map (\<lambda>v. v + c)) p"

text \<open>\<open>F.softmax(m, dim=1)\<close> and \<open>F.log_softmax(m, dim=1)\<close> work on each row.\<close>

definition softmax_row :: "real list \<Rightarrow> real list" where
  "softmax_row xs = map (\<lambda>x. exp x / sum_list (map exp xs)) xs"

definition log_softmax_row :: "real list \<Rightarrow> real list" where
  "log_softmax_row xs = map (\<lambda>x. x - ln (sum_list (map exp xs))) xs"

definition softmax :: "matrix \<Rightarrow> matrix" where
  "softmax m = map softmax_row m"

definition log_softmax :: "matrix \<Rightarrow> matrix" where
  "log_softmax m = map log_softmax_row m"

section \<open>compute_joint (fedgkt/utils.py)\<close>

text \<open>
  \<open>x_out.unsqueeze(2) * x_tf_out.unsqueeze(1)\<close> has the entry
  \<open>x_out[b, i] * x_tf_out[b, j]\<close> at \<open>[b, i, j]\<close>; \<open>sum(dim=0)\<close> adds over \<open>b\<close>.
\<close>

definition outer_sum :: "nat \<Rightarrow> nat \<Rightarrow> matrix \<Rightarrow> matrix \<Rightarrow> matrix" where
  "outer_sum bn k x y = mk_mat k k (\<lambda>i j. \<Sum>b\<leftarrow>[0..<bn]. x ! b ! i * y ! b ! j)"

definition compute_joint :: "matrix \<Rightarrow> matrix \<Rightarrow> py_error + matrix" where
  "compute_joint x_out x_tf_out =
     (let bn = size0 x_out; k = size1 x_out in
      if \<not> (size0 x_tf_out = bn \<and> size1 x_tf_out = k) then Inl AssertionError
      else
        let p_i_j = outer_sum bn k x_out x_tf_out;
            p_i_j = mat_div (mat_add p_i_j (mat_t p_i_j)) 2;
            p_i_j = mat_div p_i_j (msum p_i_j)
        in Inr p_i_j)"

text \<open>The method \<open>_compute_joint\<close> of \<open>MutualInformationLoss\<close> has the same body.\<close>

definition MutualInformationLoss_compute_joint :: "matrix \<Rightarrow> matrix \<Rightarrow> py_error + matrix" where
  "MutualInformationLoss_compute_joint logits logits_aug =
     (let b = size0 logits; dim = size1 logits in
      if \<not> (size0 logits_aug = b \<and> size1 logits_aug = dim) then Inl AssertionError
      else
        let pij = outer_sum b dim logits logits_aug;
            pij = mat_div (mat_add pij (mat_t pij)) 2;
            pij = mat_div pij (msum pij)
        in Inr pij)"

section \<open>The distillation losses (fedgkt/utils.py)\<close>

text \<open>\<open>10 ** (-7)\<close> and \<open>sys.float_info.epsilon\<close>.\<close>

definition KL_eps :: real where
  "KL_eps = 1 / 10 ^ 7"

definition float_epsilon :: real where
  "float_epsilon = 1 / 2 ^ 52"

text \<open>
  \<open>nn.KLDivLoss(reduction='batchmean')(input, target)\<close>: the entries
  \<open>xlogy(target, target) - target * input\<close>, summed and divided by the batch size.
\<close>

definition xlogy :: "real \<Rightarrow> real \<Rightarrow> real" where
  "xlogy a b = (if a = 0 then 0 else a * ln b)"

definition KLDivLoss_batchmean :: "matrix \<Rightarrow> matrix \<Rightarrow> real" where
  "KLDivLoss_batchmean inp target =
     msum (map2 (map2 (\<lambda>x t. xlogy t t - t * x)) inp target) / real (size0 inp)"

text \<open>The tensor that \<open>KL_Loss\<close> hands to the divergence as its target (line 89).\<close>

definition KL_teacher :: "real \<Rightarrow> matrix \<Rightarrow> matrix" where
  "KL_teacher T teacher_outputs = mat_add_scalar (softmax (mat_div teacher_outputs T)) KL_eps"

definition KL_Loss :: "real \<Rightarrow> matrix \<Rightarrow> matrix \<Rightarrow> real" where
  "KL_Loss T output_batch teacher_outputs =
     (let output_batch = log_softmax (mat_div output_batch T);
          teacher_outputs = KL_teacher T teacher_outputs;
          loss = T * T * KLDivLoss_batchmean output_batch teacher_outputs
      in loss)"

definition CE_Loss :: "real \<Rightarrow> matrix \<Rightarrow> matrix \<Rightarrow> real" where
  "CE_Loss T output_batch teacher_outputs =
     (let output_batch = log_softmax (mat_div output_batch T);
          teacher_outputs = softmax (mat_div teacher_outputs T);
          loss = - T * T * msum (mat_mul output_batch teacher_outputs)
                   / real (size0 teacher_outputs)
      in loss)"

text \<open>
  \<open>p.sum(dim=1)\<close> and \<open>p.sum(dim=0)\<close>, and the two expansions of a vector of \<open>k\<close> sums to
  a \<open>k\<close> by \<open>k\<close> tensor: \<open>view(k, 1).expand(k, k)\<close> repeats the vector in every column,
  \<open>view(1, k).expand(k, k)\<close> in every row.
\<close>

definition sum_dim1 :: "matrix \<Rightarrow> real list" where
  "sum_dim1 p = map sum_list p"

definition sum_dim0 :: "matrix \<Rightarrow> real list" where
  "sum_dim0 p = map (\<lambda>j. \<Sum>r\<leftarrow>p. r ! j) [0..<size1 p]"

definition expand_col :: "nat \<Rightarrow> real list \<Rightarrow> matrix" where
  "expand_col k v = mk_mat k k (\<lambda>i j. v ! i)"

definition expand_row :: "nat \<Rightarrow> real list \<Rightarrow> matrix" where
  "expand_row k v = mk_mat k k (\<lambda>i j. v ! j)"

text \<open>
  \<open>p[(p < EPS).data] = EPS\<close>. The assignment is modelled on the values of the tensor:
  an expanded tensor repeats one stored row or column, so equal entries receive equal
  values; what the library checks before it writes through such a view is not modelled.
\<close>

definition floor_eps :: "real \<Rightarrow> matrix \<Rightarrow> matrix" where
  "floor_eps EPS p = map (map (\<lambda>v. if v < EPS then EPS else v)) p"

text \<open>
  The last lines of \<open>IID_loss\<close> and of \<open>MutualInformationLoss.forward\<close>: the entries
  \<open>- p_i_j * (log p_i_j - lamb * log p_j - lamb * log p_i)\<close>, summed.
\<close>

definition information_sum :: "real \<Rightarrow> nat \<Rightarrow> matrix \<Rightarrow> matrix \<Rightarrow> matrix \<Rightarrow> real" where
  "information_sum lamb k p_i_j p_j p_i =
     msum (mk_mat k k (\<lambda>i j. - (p_i_j ! i ! j) *
        (ln (p_i_j ! i ! j) - lamb * ln (p_j ! i ! j) - lamb * ln (p_i ! i ! j))))"

text \<open>
  \<open>IID_loss\<close> up to the three tensors whose logarithms are taken (lines 99 to 109), and
  the loss itself.
\<close>

definition IID_log_args ::
  "matrix \<Rightarrow> matrix \<Rightarrow> real \<Rightarrow> py_error + (matrix \<times> matrix \<times> matrix)" where
  "IID_log_args x_out x_tf_out EPS =
     (let k = size1 x_out in
      case compute_joint x_out x_tf_out of
        Inl e \<Rightarrow> Inl e
      | Inr p_i_j \<Rightarrow>
          if \<not> (size0 p_i_j = k \<and> size1 p_i_j = k) then Inl AssertionError
          else
            let p_i = expand_col k (sum_dim1 p_i_j);
                p_j = expand_row k (sum_dim0 p_i_j);
                p_i_j = floor_eps EPS p_i_j;
                p_j = floor_eps EPS p_j;
                p_i = floor_eps EPS p_i
            in Inr (p_i_j, p_j, p_i))"

definition IID_loss :: "matrix \<Rightarrow> matrix \<Rightarrow> real \<Rightarrow> real \<Rightarrow> py_error + real" where
  "IID_loss x_out x_tf_out lamb EPS =
     (case IID_log_args x_out x_tf_out EPS of
        Inl e \<Rightarrow> Inl e
      | Inr (p_i_j, p_j, p_i) \<Rightarrow> Inr (information_sum lamb (size1 x_out) p_i_j p_j p_i))"

text \<open>
  \<open>MutualInformationLoss.forward\<close>, in the same two steps (lines 149 to 162, then the
  loss). The source's \<open>pi\<close> and \<open>pj\<close> are \<open>p_i\<close> and \<open>p_j\<close> here.
\<close>

definition MutualInformationLoss_log_args ::
  "real \<Rightarrow> matrix \<Rightarrow> matrix \<Rightarrow> real \<Rightarrow> py_error + (matrix \<times> matrix \<times> matrix)" where
  "MutualInformationLoss_log_args T output_batch output_batch_aug EPS =
     (let c = size1 output_batch;
          logits = log_softmax (mat_div output_batch T);
          logits_aug = log_softmax (mat_div output_batch_aug T)
      in
      case MutualInformationLoss_compute_joint logits logits_aug of
        Inl e \<Rightarrow> Inl e
      | Inr pij \<Rightarrow>
          if \<not> (size0 pij = c \<and> size1 pij = c) then Inl AssertionError
          else
            let p_i = expand_col c (sum_dim1 pij);
                p_j = expand_row c (sum_dim0 pij);
                pij = floor_eps EPS pij;
                p_j = floor_eps EPS p_j;
                p_i = floor_eps EPS p_i
            in Inr (pij, p_j, p_i))"

definition MutualInformationLoss_forward ::
  "real \<Rightarrow> matrix \<Rightarrow> matrix \<Rightarrow> real \<Rightarrow> real \<Rightarrow> py_error + real" where
  "MutualInformationLoss_forward T output_batch output_batch_aug lamb EPS =
     (case MutualInformationLoss_log_args T output_batch output_batch_aug EPS of
        Inl e \<Rightarrow> Inl e
      | Inr (pij, p_j, p_i) \<Rightarrow> Inr (information_sum lamb (size1 output_batch) pij p_j p_i))"

section \<open>The soft cross-entropy formula\<close>

text \<open>
  The formula that claim C8 names, written from its words and not from the code: with
  \<open>softmax(z)[c] = exp(z[c]) / (exp(z[0]) + ... + exp(z[n-1]))\<close> and \<open>log_softmax\<close> its
  logarithm, the temperature-scaled soft cross-entropy of a batch of \<open>B\<close> rows and \<open>C\<close>
  classes is \<open>- T^2 * sum(softmax(teacher / T) * log_softmax(student / T)) / B\<close>.
\<close>

definition softmax_at :: "real list \<Rightarrow> nat \<Rightarrow> real" where
  "softmax_at z c = exp (z ! c) / (\<Sum>k<length z. exp (z ! k))"

definition soft_cross_entropy_formula ::
  "real \<Rightarrow> nat \<Rightarrow> nat \<Rightarrow> matrix \<Rightarrow> matrix \<Rightarrow> real" where
  "soft_cross_entropy_formula T B C student teacher =
     - (T ^ 2) * (\<Sum>b<B. \<Sum>c<C. softmax_at (map (\<lambda>v. v / T) (teacher ! b)) c
                                * ln (softmax_at (map (\<lambda>v. v / T) (student ! b)) c)) / real B"

section \<open>get_state_dict (fedgkt/utils.py)\<close>

text \<open>
  \<open>torch.load\<close> is a library call that reads a file. It is taken as a parameter, once for
  the direct call \<open>torch.load(file)\<close> and once for the call with \<open>map_location\<close>. Each
  returns the loaded state dictionary or raises. \<open>except AssertionError\<close> catches the
  constructor \<open>AssertionError\<close>; every other exception is \<open>RuntimeError\<close> or \<open>OtherError\<close>.
  The function returns its result together with the calls of \<open>torch.load\<close> it has made.
\<close>

datatype torch_call = Load string | Load_mapped string

definition get_state_dict ::
  "(string \<Rightarrow> py_error + 'sd) \<Rightarrow> (string \<Rightarrow> py_error + 'sd) \<Rightarrow> string
     \<Rightarrow> (py_error + 'sd) \<times> torch_call list" where
  "get_state_dict torch_load torch_load_mapped file =
     (case torch_load file of
        Inr pretrain_state_dict \<Rightarrow> (Inr pretrain_state_dict, [Load file])
      | Inl AssertionError \<Rightarrow> (torch_load_mapped file, [Load file, Load_mapped file])
      | Inl e \<Rightarrow> (Inl e, [Load file]))"

section \<open>Role dispatch (fedopt/FedOptAPI.py)\<close>

text \<open>
  The aggregator, trainer and manager classes are outside the two source files. The
  model records the constructor and method calls that the role functions make, in order,
  with their integer arguments; the opaque arguments (args, device, comm, model and the
  data sets) are passed through unchanged by the code and are left out. The argument
  \<open>model_trainer\<close> matters only through the test \<open>model_trainer is None\<close>.
\<close>

datatype api_call =
    MyModelTrainer_new
  | set_id int
  | FedOptAggregator_new int
  | FedOptServerManager_new int int
  | send_init_msg
  | server_manager_run
  | FedOptTrainer_new int
  | FedOptClientManager_new int int
  | client_manager_run

datatype role = Server "api_call list" | Client "api_call list"

definition init_server :: "int \<Rightarrow> int \<Rightarrow> 'mt option \<Rightarrow> api_call list" where
  "init_server rank sz model_trainer =
     (if model_trainer = None then [MyModelTrainer_new, set_id (- 1)] else []) @
     (let worker_num = sz - 1 in
        [FedOptAggregator_new worker_num, FedOptServerManager_new rank sz,
         send_init_msg, server_manager_run])"

definition init_client :: "int \<Rightarrow> int \<Rightarrow> 'mt option \<Rightarrow> api_call list" where
  "init_client process_id sz model_trainer =
     (let client_index = process_id - 1 in
        (if model_trainer = None then [MyModelTrainer_new, set_id client_index] else []) @
        [FedOptTrainer_new client_index, FedOptClientManager_new process_id sz,
         client_manager_run])"

definition FedML_FedOpt_distributed :: "int \<Rightarrow> int \<Rightarrow> 'mt option \<Rightarrow> role" where
  "FedML_FedOpt_distributed process_id worker_number model_trainer =
     (if process_id = 0 then Server (init_server process_id worker_number model_trainer)
      else Client (init_client process_id worker_number model_trainer))"

fun is_Server :: "role \<Rightarrow> bool" where
  "is_Server (Server _) = True"
| "is_Server (Client _) = False"

fun role_calls :: "role \<Rightarrow> api_call list" where
  "role_calls (Server cs) = cs"
| "role_calls (Client cs) = cs"

text \<open>The worker count handed to the aggregator and the index handed to the trainer.\<close>

fun worker_nums :: "api_call list \<Rightarrow> int list" where
  "worker_nums [] = []"
| "worker_nums (FedOptAggregator_new n # cs) = n # worker_nums cs"
| "worker_nums (_ # cs) = worker_nums cs"

fun client_indices :: "api_call list \<Rightarrow> int list" where
  "client_indices [] = []"
| "client_indices (FedOptTrainer_new i # cs) = i # client_indices cs"
| "client_indices (_ # cs) = client_indices cs"

section \<open>Auxiliary lemmas\<close>

subsection \<open>Running average\<close>

lemma steps_foldl_update:
  "steps (foldl update ra vs) = steps ra + int (length vs)"
  by (induction vs arbitrary: ra) (simp_all add: update_def)

lemma total_foldl_update:
  "total (foldl update ra vs) = total ra + sum_list vs"
  by (induction vs arbitrary: ra) (simp_all add: update_def)

subsection \<open>Flattening\<close>











subsection \<open>Tensors given by their entries\<close>

lemma mk_mat_nth: "i < n \<Longrightarrow> j < k \<Longrightarrow> mk_mat n k f ! i ! j = f i j"
  by (simp add: mk_mat_def)

lemma is_matrix_mk_mat: "is_matrix n k (mk_mat n k f)"
  by (simp add: is_matrix_def mk_mat_def list_all_iff)

lemma size0_mk_mat: "size0 (mk_mat n k f) = n"
  by (simp add: size0_def mk_mat_def)

lemma size1_mk_mat: "size1 (mk_mat n k f) = (if n = 0 then 0 else k)"
  by (cases n) (simp_all add: size1_def mk_mat_def upt_conv_Cons del: upt_Suc)

lemma mk_mat_cong: "(\<And>i j. i < n \<Longrightarrow> j < k \<Longrightarrow> f i j = g i j) \<Longrightarrow> mk_mat n k f = mk_mat n k g"
  by (simp add: mk_mat_def)

lemma msum_mk_mat: "msum (mk_mat n k f) = (\<Sum>i<n. \<Sum>j<k. f i j)"
  by (simp add: msum_def mk_mat_def comp_def interv_sum_list_conv_sum_set_nat atLeast0LessThan)

lemma mat_t_mk_mat_square: "mat_t (mk_mat k k f) = mk_mat k k (\<lambda>i j. f j i)"
  unfolding mat_t_def size0_mk_mat size1_mk_mat
  by (cases "k = 0") (auto simp: mk_mat_nth intro: mk_mat_cong simp: mk_mat_def)

lemma mat_add_mk_mat: "mat_add (mk_mat n k f) (mk_mat n k g) = mk_mat n k (\<lambda>i j. f i j + g i j)"
  by (simp add: mat_add_def mk_mat_def map2_map_map zip_same_conv_map cong: map_cong)

lemma mat_div_mk_mat: "mat_div (mk_mat n k f) c = mk_mat n k (\<lambda>i j. f i j / c)"
  by (simp add: mat_div_def mk_mat_def comp_def)

lemma size1_is_matrix: "is_matrix n k m \<Longrightarrow> 0 < n \<Longrightarrow> size1 m = k"
  by (cases m) (simp_all add: is_matrix_def size1_def)

lemma size0_is_matrix: "is_matrix n k m \<Longrightarrow> size0 m = n"
  by (simp add: is_matrix_def size0_def)

lemma msum_sym:
  "msum (mk_mat k k (\<lambda>i j. (f i j + f j i) / 2)) = msum (mk_mat k k f)"
proof -
  let ?S = "\<Sum>i<k. \<Sum>j<k. f i j"
  have "(\<Sum>i<k. \<Sum>j<k. (f i j + f j i) / 2) = (\<Sum>i<k. (\<Sum>j<k. f i j) / 2 + (\<Sum>j<k. f j i) / 2)"
    by (simp add: add_divide_distrib sum.distrib sum_divide_distrib)
  also have "\<dots> = ?S / 2 + (\<Sum>i<k. \<Sum>j<k. f j i) / 2"
    by (simp add: sum.distrib sum_divide_distrib)
  also have "(\<Sum>i<k. \<Sum>j<k. f j i) = ?S"
    by (rule sum.swap)
  finally show ?thesis by (simp add: msum_mk_mat)
qed

lemma msum_div: "msum (mk_mat n k (\<lambda>i j. f i j / c)) = msum (mk_mat n k f) / c"
  by (simp add: msum_mk_mat sum_divide_distrib)

lemma joint_of_outer:
  "mat_div (mat_add (mk_mat k k f) (mat_t (mk_mat k k f))) 2 = mk_mat k k (\<lambda>i j. (f i j + f j i) / 2)"
  by (simp add: mat_t_mk_mat_square mat_add_mk_mat mat_div_mk_mat)

lemma outer_sum_empty: "msum (outer_sum 0 k x y) = 0"
  by (simp add: outer_sum_def msum_mk_mat)

lemma compute_joint_props:
  assumes x: "is_matrix bn k x" and y: "is_matrix bn k y"
    and nz: "msum (outer_sum (size0 x) (size1 x) x y) \<noteq> 0"
  shows "\<exists>p. compute_joint x y = Inr p \<and> is_matrix k k p \<and> mat_t p = p \<and> msum p = 1"
proof -
  have bn0: "size0 x = bn" "size0 y = bn" using x y by (simp_all add: size0_is_matrix)
  have "bn \<noteq> 0"
  proof
    assume "bn = 0"
    then have "msum (outer_sum (size0 x) (size1 x) x y) = 0"
      using bn0 by (simp add: outer_sum_empty)
    with nz show False by simp
  qed
  then have k1: "size1 x = k" "size1 y = k" using x y by (simp_all add: size1_is_matrix)
  define f where "f = (\<lambda>i j. \<Sum>b\<leftarrow>[0..<bn]. x ! b ! i * y ! b ! j)"
  define g where "g = (\<lambda>i j. (f i j + f j i) / 2)"
  define s where "s = msum (mk_mat k k g)"
  have o: "outer_sum bn k x y = mk_mat k k f" by (simp add: outer_sum_def f_def)
  have s_eq: "s = msum (mk_mat k k f)" unfolding s_def g_def by (rule msum_sym)
  then have s0: "s \<noteq> 0" using nz bn0 k1 o by simp
  have sym: "mat_div (mat_add (mk_mat k k f) (mat_t (mk_mat k k f))) 2 = mk_mat k k g"
    unfolding g_def by (rule joint_of_outer)
  have cj: "compute_joint x y = Inr (mk_mat k k (\<lambda>i j. g i j / s))"
    by (simp add: compute_joint_def Let_def bn0 k1 o sym mat_div_mk_mat s_def)
  have gs: "g i j = g j i" for i j by (simp add: g_def add.commute)
  have t: "mat_t (mk_mat k k (\<lambda>i j. g i j / s)) = mk_mat k k (\<lambda>i j. g i j / s)"
    by (simp add: mat_t_mk_mat_square gs)
  have "msum (mk_mat k k (\<lambda>i j. g i j / s)) = 1"
    using s0 by (simp add: msum_div s_def[symmetric])
  with cj t show ?thesis by (simp add: is_matrix_mk_mat)
qed

subsection \<open>Softmax and the losses\<close>

lemma sum_exp_nonneg: "0 \<le> sum_list (map exp xs)" for xs :: "real list"
  by (rule sum_list_nonneg) auto

lemma sum_exp_pos: "xs \<noteq> [] \<Longrightarrow> 0 < sum_list (map exp xs)" for xs :: "real list"
  using sum_exp_nonneg [of "tl xs"] by (cases xs) (simp_all add: add_pos_nonneg)

lemma sum_list_map_divide: "(\<Sum>x\<leftarrow>xs. f x / c) = (\<Sum>x\<leftarrow>xs. f x) / c" for c :: real
  by (induction xs) (simp_all add: add_divide_distrib)

lemma softmax_row_sum: "xs \<noteq> [] \<Longrightarrow> sum_list (softmax_row xs) = 1"
proof -
  assume "xs \<noteq> []"
  then have p: "0 < sum_list (map exp xs)" by (rule sum_exp_pos)
  have "sum_list (softmax_row xs) = sum_list (map exp xs) / sum_list (map exp xs)"
    unfolding softmax_row_def by (simp add: comp_def sum_list_map_divide)
  then show ?thesis using p by simp
qed

lemma log_softmax_row_ln: "log_softmax_row xs = map ln (softmax_row xs)"
proof (cases "xs = []")
  case True then show ?thesis by (simp add: log_softmax_row_def softmax_row_def)
next
  case False
  then have p: "0 < sum_list (map exp xs)" by (rule sum_exp_pos)
  show ?thesis unfolding log_softmax_row_def softmax_row_def using p
    by (simp add: ln_div)
qed

lemma exp_log_softmax_row: "map exp (log_softmax_row xs) = softmax_row xs"
proof (cases "xs = []")
  case True then show ?thesis by (simp add: log_softmax_row_def softmax_row_def)
next
  case False
  then have p: "0 < sum_list (map exp xs)" by (rule sum_exp_pos)
  show ?thesis unfolding log_softmax_row_def softmax_row_def using p
    by (simp add: exp_diff)
qed

lemma softmax_row_pos: "v \<in> set (softmax_row xs) \<Longrightarrow> 0 < v"
proof -
  assume v: "v \<in> set (softmax_row xs)"
  then have "xs \<noteq> []" by (auto simp: softmax_row_def)
  then have "0 < sum_list (map exp xs)" by (rule sum_exp_pos)
  with v show ?thesis by (auto simp: softmax_row_def)
qed

lemma is_matrix_eq_mk_mat: "is_matrix n k m \<Longrightarrow> m = mk_mat n k (\<lambda>i j. m ! i ! j)"
  by (auto simp: is_matrix_def mk_mat_def list_all_iff intro!: nth_equalityI)

lemma is_matrix_row: "is_matrix n k m \<Longrightarrow> b < n \<Longrightarrow> length (m ! b) = k"
  by (simp add: is_matrix_def list_all_length)

lemma is_matrix_map_rows:
  "is_matrix n k m \<Longrightarrow> (\<And>r. length (f r) = length r) \<Longrightarrow> is_matrix n k (map f m)"
  by (simp add: is_matrix_def list_all_iff)

lemma is_matrix_mat_div: "is_matrix n k m \<Longrightarrow> is_matrix n k (mat_div m c)"
  unfolding mat_div_def by (rule is_matrix_map_rows) simp_all

lemma is_matrix_softmax: "is_matrix n k m \<Longrightarrow> is_matrix n k (softmax m)"
  unfolding softmax_def by (rule is_matrix_map_rows) (simp_all add: softmax_row_def)

lemma is_matrix_log_softmax: "is_matrix n k m \<Longrightarrow> is_matrix n k (log_softmax m)"
  unfolding log_softmax_def by (rule is_matrix_map_rows) (simp_all add: log_softmax_row_def)

lemma mat_mul_mk_mat: "mat_mul (mk_mat n k f) (mk_mat n k g) = mk_mat n k (\<lambda>i j. f i j * g i j)"
  by (simp add: mat_mul_def mk_mat_def map2_map_map zip_same_conv_map cong: map_cong)

lemma msum_mat_mul:
  assumes "is_matrix n k p" "is_matrix n k q"
  shows "msum (mat_mul p q) = (\<Sum>i<n. \<Sum>j<k. p ! i ! j * q ! i ! j)"
proof -
  have "mat_mul p q = mat_mul (mk_mat n k (\<lambda>i j. p ! i ! j)) (mk_mat n k (\<lambda>i j. q ! i ! j))"
    using assms is_matrix_eq_mk_mat by metis
  then show ?thesis by (simp add: mat_mul_mk_mat msum_mk_mat)
qed

lemma sum_list_exp_nth: "sum_list (map exp z) = (\<Sum>k<length z. exp (z ! k))" for z :: "real list"
  by (simp add: sum_list_sum_nth atLeast0LessThan)

lemma softmax_row_nth: "c < length z \<Longrightarrow> softmax_row z ! c = softmax_at z c"
  by (simp add: softmax_row_def softmax_at_def sum_list_exp_nth)

lemma softmax_nth:
  "is_matrix n k m \<Longrightarrow> b < n \<Longrightarrow> c < k \<Longrightarrow>
   softmax (mat_div m T) ! b ! c = softmax_at (map (\<lambda>v. v / T) (m ! b)) c"
  by (simp add: softmax_def mat_div_def is_matrix_def list_all_length softmax_row_nth)

lemma log_softmax_row_nth: "c < length z \<Longrightarrow> log_softmax_row z ! c = ln (softmax_at z c)"
  using softmax_row_nth [of c z] by (simp add: log_softmax_row_ln softmax_row_def)

lemma log_softmax_nth:
  "is_matrix n k m \<Longrightarrow> b < n \<Longrightarrow> c < k \<Longrightarrow>
   log_softmax (mat_div m T) ! b ! c = ln (softmax_at (map (\<lambda>v. v / T) (m ! b)) c)"
  by (simp add: log_softmax_def mat_div_def is_matrix_def list_all_length log_softmax_row_nth)

lemma CE_Loss_formula:
  assumes s: "is_matrix B C student" and t: "is_matrix B C teacher"
  shows "CE_Loss T student teacher = soft_cross_entropy_formula T B C student teacher"
proof -
  let ?ls = "log_softmax (mat_div student T)" and ?sm = "softmax (mat_div teacher T)"
  have ls: "is_matrix B C ?ls" using s by (intro is_matrix_log_softmax is_matrix_mat_div)
  have sm: "is_matrix B C ?sm" using t by (intro is_matrix_softmax is_matrix_mat_div)
  have sz: "size0 ?sm = B" using sm by (simp add: size0_is_matrix)
  have "msum (mat_mul ?ls ?sm) = (\<Sum>b<B. \<Sum>c<C. ?ls ! b ! c * ?sm ! b ! c)"
    using ls sm by (rule msum_mat_mul)
  also have "\<dots> = (\<Sum>b<B. \<Sum>c<C. softmax_at (map (\<lambda>v. v / T) (teacher ! b)) c
                                * ln (softmax_at (map (\<lambda>v. v / T) (student ! b)) c))"
    using s t by (intro sum.cong refl) (simp add: softmax_nth log_softmax_nth mult.commute)
  finally show ?thesis
    by (simp add: CE_Loss_def soft_cross_entropy_formula_def sz power2_eq_square)
qed

lemma sum_exp_nth_pos: "0 < length z \<Longrightarrow> 0 < (\<Sum>k<length z. exp (z ! k))" for z :: "real list"
  using sum_exp_pos [of z] by (simp add: sum_list_exp_nth)

lemma softmax_at_pos: "c < length z \<Longrightarrow> 0 < softmax_at z c"
proof -
  assume c: "c < length z"
  then have "z \<noteq> []" by auto
  then have "0 < sum_list (map exp z)" by (rule sum_exp_pos)
  then show ?thesis by (simp add: softmax_at_def sum_list_exp_nth[symmetric])
qed

lemma softmax_at_le_1: "c < length z \<Longrightarrow> softmax_at z c \<le> 1"
proof -
  assume c: "c < length z"
  have "exp (z ! c) \<le> (\<Sum>k<length z. exp (z ! k))"
    using c by (intro member_le_sum) auto
  moreover have "0 < (\<Sum>k<length z. exp (z ! k))"
    using c by (intro sum_exp_nth_pos) auto
  ultimately show ?thesis by (simp add: softmax_at_def)
qed

lemma softmax_at_sum: "0 < length z \<Longrightarrow> (\<Sum>c<length z. softmax_at z c) = 1"
proof -
  assume "0 < length z"
  then have "0 < (\<Sum>k<length z. exp (z ! k))"
    by (rule sum_exp_nth_pos)
  then show ?thesis by (simp add: softmax_at_def sum_divide_distrib[symmetric])
qed

lemma CE_Loss_nonneg:
  assumes s: "is_matrix B C student" and t: "is_matrix B C teacher"
  shows "0 \<le> CE_Loss T student teacher"
proof -
  have tm: "softmax_at (map (\<lambda>v. v / T) (teacher ! b)) c
                * ln (softmax_at (map (\<lambda>v. v / T) (student ! b)) c) \<le> 0"
    if "b < B" "c < C" for b c
  proof -
    have ls: "c < length (map (\<lambda>v. v / T) (student ! b))"
      and lt: "c < length (map (\<lambda>v. v / T) (teacher ! b))"
      using that s t by (simp_all add: is_matrix_row)
    have "0 \<le> softmax_at (map (\<lambda>v. v / T) (teacher ! b)) c"
      using softmax_at_pos [OF lt] by simp
    moreover have "ln (softmax_at (map (\<lambda>v. v / T) (student ! b)) c) \<le> 0"
      using softmax_at_pos [OF ls] softmax_at_le_1 [OF ls] by simp
    ultimately show ?thesis by (rule mult_nonneg_nonpos)
  qed
  have "(\<Sum>b<B. \<Sum>c<C. softmax_at (map (\<lambda>v. v / T) (teacher ! b)) c
                                * ln (softmax_at (map (\<lambda>v. v / T) (student ! b)) c)) \<le> 0"
    by (intro sum_nonpos) (simp add: tm)
  then have "0 \<le> (T ^ 2) * - (\<Sum>b<B. \<Sum>c<C. softmax_at (map (\<lambda>v. v / T) (teacher ! b)) c
                                * ln (softmax_at (map (\<lambda>v. v / T) (student ! b)) c)) / real B"
    by (intro divide_nonneg_nonneg mult_nonneg_nonneg) simp_all
  then show ?thesis
    by (simp add: CE_Loss_formula [OF s t] soft_cross_entropy_formula_def)
qed

lemma msum_map2:
  assumes "is_matrix n k p" "is_matrix n k q"
  shows "msum (map2 (map2 h) p q) = (\<Sum>i<n. \<Sum>j<k. h (p ! i ! j) (q ! i ! j))"
proof -
  have "map2 (map2 h) p q
      = map2 (map2 h) (mk_mat n k (\<lambda>i j. p ! i ! j)) (mk_mat n k (\<lambda>i j. q ! i ! j))"
    using assms is_matrix_eq_mk_mat by metis
  also have "\<dots> = mk_mat n k (\<lambda>i j. h (p ! i ! j) (q ! i ! j))"
    by (simp add: mk_mat_def map2_map_map zip_same_conv_map cong: map_cong)
  finally show ?thesis by (simp add: msum_mk_mat)
qed

lemma kl_entry_bound:
  assumes "0 < t"
  shows "t - exp x \<le> xlogy t t - t * x"
proof -
  have "ln (exp x / t) \<le> exp x / t - 1"
    using assms by (intro ln_le_minus_one) simp
  then have "x - ln t \<le> exp x / t - 1"
    using assms by (simp add: ln_div)
  then have "t * (x - ln t) \<le> t * (exp x / t - 1)"
    using assms by (intro mult_left_mono) simp_all
  then have "t * x - t * ln t \<le> exp x - t"
    using assms by (simp add: algebra_simps)
  then show ?thesis using assms by (simp add: xlogy_def)
qed

lemma KL_teacher_nth:
  "is_matrix n k m \<Longrightarrow> b < n \<Longrightarrow> c < k \<Longrightarrow>
   KL_teacher T m ! b ! c = softmax_at (map (\<lambda>v. v / T) (m ! b)) c + KL_eps"
  using softmax_nth [of n k m b c T] is_matrix_softmax [OF is_matrix_mat_div, of n k m T]
  by (simp add: KL_teacher_def mat_add_scalar_def is_matrix_def list_all_length)

lemma is_matrix_KL_teacher: "is_matrix n k m \<Longrightarrow> is_matrix n k (KL_teacher T m)"
  unfolding KL_teacher_def mat_add_scalar_def
  by (rule is_matrix_map_rows) (simp_all add: is_matrix_softmax is_matrix_mat_div)

lemma KL_eps_pos: "0 < KL_eps"
  by (simp add: KL_eps_def)

lemma KL_Loss_lower_bound:
  assumes s: "is_matrix B C student" and t: "is_matrix B C teacher" and B: "0 < B"
  shows "T * T * (real C * KL_eps) \<le> KL_Loss T student teacher"
proof -
  let ?ls = "log_softmax (mat_div student T)" and ?tt = "KL_teacher T teacher"
  let ?zs = "\<lambda>b. map (\<lambda>v. v / T) (student ! b)" and ?zt = "\<lambda>b. map (\<lambda>v. v / T) (teacher ! b)"
  have ls: "is_matrix B C ?ls" using s by (intro is_matrix_log_softmax is_matrix_mat_div)
  have tt: "is_matrix B C ?tt" using t by (rule is_matrix_KL_teacher)
  have sz: "size0 ?ls = B" using ls by (simp add: size0_is_matrix)
  have ms: "msum (map2 (map2 (\<lambda>x t. xlogy t t - t * x)) ?ls ?tt)
      = (\<Sum>b<B. \<Sum>c<C. xlogy (?tt ! b ! c) (?tt ! b ! c) - ?tt ! b ! c * ?ls ! b ! c)"
    using ls tt by (rule msum_map2)
  have row: "real C * KL_eps \<le> (\<Sum>c<C. xlogy (?tt ! b ! c) (?tt ! b ! c) - ?tt ! b ! c * ?ls ! b ! c)"
    if b: "b < B" for b
  proof (cases "C = 0")
    case True then show ?thesis by simp
  next
    case False
    have len: "length (?zs b) = C" "length (?zt b) = C"
      using b s t by (simp_all add: is_matrix_row)
    have "(\<Sum>c<C. (softmax_at (?zt b) c + KL_eps) - softmax_at (?zs b) c)
        \<le> (\<Sum>c<C. xlogy (?tt ! b ! c) (?tt ! b ! c) - ?tt ! b ! c * ?ls ! b ! c)"
    proof (rule sum_mono)
      fix c assume "c \<in> {..<C}"
      then have c: "c < C" by simp
      have tp: "0 < softmax_at (?zt b) c + KL_eps"
        using softmax_at_pos [of c "?zt b"] c len KL_eps_pos by (simp add: add_pos_pos)
      have e: "exp (?ls ! b ! c) = softmax_at (?zs b) c"
        using softmax_at_pos [of c "?zs b"] c len
        by (simp add: log_softmax_nth [OF s b c])
      show "softmax_at (?zt b) c + KL_eps - softmax_at (?zs b) c
          \<le> xlogy (?tt ! b ! c) (?tt ! b ! c) - ?tt ! b ! c * ?ls ! b ! c"
        using kl_entry_bound [OF tp, of "?ls ! b ! c"]
        by (simp add: e KL_teacher_nth [OF t b c])
    qed
    moreover have "(\<Sum>c<C. (softmax_at (?zt b) c + KL_eps) - softmax_at (?zs b) c) = real C * KL_eps"
    proof -
      have "(\<Sum>c<C. softmax_at (?zt b) c) = 1"
        using softmax_at_sum [of "?zt b"] False unfolding len by simp
      moreover have "(\<Sum>c<C. softmax_at (?zs b) c) = 1"
        using softmax_at_sum [of "?zs b"] False unfolding len by simp
      ultimately show ?thesis by (simp add: sum.distrib sum_subtractf)
    qed
    ultimately show ?thesis by simp
  qed
  have "real B * (real C * KL_eps) \<le> (\<Sum>b<B. \<Sum>c<C. xlogy (?tt ! b ! c) (?tt ! b ! c) - ?tt ! b ! c * ?ls ! b ! c)"
    using sum_mono [of "{..<B}" "\<lambda>b. real C * KL_eps", OF row] by simp
  then have "real C * KL_eps * real B \<le> msum (map2 (map2 (\<lambda>x t. xlogy t t - t * x)) ?ls ?tt)"
    unfolding ms by (simp only: mult.commute [of "real B"])
  then have "real C * KL_eps \<le> KLDivLoss_batchmean ?ls ?tt"
    unfolding KLDivLoss_batchmean_def sz using B by (simp only: pos_le_divide_eq of_nat_0_less_iff)
  then have "T * T * (real C * KL_eps) \<le> T * T * KLDivLoss_batchmean ?ls ?tt"
    by (intro mult_left_mono) simp_all
  then show ?thesis by (simp add: KL_Loss_def)
qed

subsection \<open>The epsilon floors\<close>

lemma floor_eps_ge: "list_all (list_all (\<lambda>v. EPS \<le> v)) (floor_eps EPS p)"
  by (auto simp: floor_eps_def list_all_iff)

lemma IID_log_args_ge:
  assumes "IID_log_args x y EPS = Inr (p_i_j, p_j, p_i)"
  shows "list_all (list_all (\<lambda>v. EPS \<le> v)) p_i_j \<and> list_all (list_all (\<lambda>v. EPS \<le> v)) p_j \<and>
         list_all (list_all (\<lambda>v. EPS \<le> v)) p_i"
  using assms floor_eps_ge
  by (auto simp: IID_log_args_def Let_def split: sum.splits if_splits)

lemma MutualInformationLoss_log_args_ge:
  assumes "MutualInformationLoss_log_args T x y EPS = Inr (pij, p_j, p_i)"
  shows "list_all (list_all (\<lambda>v. EPS \<le> v)) pij \<and> list_all (list_all (\<lambda>v. EPS \<le> v)) p_j \<and>
         list_all (list_all (\<lambda>v. EPS \<le> v)) p_i"
  using assms floor_eps_ge
  by (auto simp: MutualInformationLoss_log_args_def Let_def split: sum.splits if_splits)

lemma softmax_pos: "list_all (list_all (\<lambda>v. 0 < v)) (softmax m)"
  by (auto simp: softmax_def list_all_iff dest: softmax_row_pos)

lemma KL_teacher_ge: "list_all (list_all (\<lambda>v. KL_eps \<le> v)) (KL_teacher T m)"
  using softmax_pos [of "mat_div m T"]
  by (auto simp: KL_teacher_def mat_add_scalar_def list_all_iff intro: less_imp_le)

lemma log_softmax_first:
  "log_softmax (mat_div [[0, X]] 1) ! 0 ! 0 = - ln (1 + exp X)"
  by (simp add: log_softmax_def mat_div_def log_softmax_row_def)

lemma CE_Loss_two_classes:
  "CE_Loss 1 [[0, X]] [[0, 0]] = ln (1 + exp X) - X / 2"
  by (simp add: CE_Loss_def log_softmax_def softmax_def mat_div_def log_softmax_row_def
      softmax_row_def mat_mul_def msum_def size0_def, simp add: field_simps)

lemma ln_one_plus_exp_gt: "X < ln (1 + exp X)" for X :: real
proof -
  have "ln (exp X) < ln (1 + exp X)"
    by (subst ln_less_cancel_iff) (simp_all add: add_pos_pos)
  then show ?thesis by simp
qed

lemma CE_below_any_epsilon:
  assumes "0 < eps"
  shows "log_softmax (mat_div [[0, 2 * \<bar>ln eps\<bar> + 2]] 1) ! 0 ! 0 < ln eps \<and>
         - ln eps < CE_Loss 1 [[0, 2 * \<bar>ln eps\<bar> + 2]] [[0, 0]]"
proof -
  let ?X = "2 * \<bar>ln eps\<bar> + 2"
  have gt: "?X < ln (1 + exp ?X)" by (rule ln_one_plus_exp_gt)
  have h: "?X / 2 = \<bar>ln eps\<bar> + 1" by simp
  have a: "- ln eps \<le> \<bar>ln eps\<bar>" "- \<bar>ln eps\<bar> \<le> ln eps" by simp_all
  have "- ln (1 + exp ?X) < ln eps" using gt a by linarith
  moreover have "- ln eps < ln (1 + exp ?X) - ?X / 2" unfolding h using gt a by linarith
  ultimately show ?thesis unfolding log_softmax_first CE_Loss_two_classes by simp
qed

lemma ln_float_epsilon: "- 52 < ln float_epsilon"
proof -
  have "- ln float_epsilon = ln ((2 :: real) ^ 52)"
    unfolding float_epsilon_def by (subst ln_div) simp_all
  also have "\<dots> = 52 * ln 2"
    by (subst ln_realpow) simp_all
  also have "\<dots> < 52 * 1" using ln_2_less_1 by (intro mult_strict_left_mono) simp_all
  finally show ?thesis by simp
qed

lemma CE_no_floor_example:
  "log_softmax (mat_div [[0, 200]] 1) ! 0 ! 0 < ln float_epsilon \<and>
   ln float_epsilon < ln KL_eps \<and>
   - ln float_epsilon < CE_Loss 1 [[0, 200]] [[0, 0]]"
proof -
  have gt: "(200 :: real) < ln (1 + exp 200)" by (rule ln_one_plus_exp_gt)
  have 1: "log_softmax (mat_div [[0, 200]] 1) ! 0 ! 0 < ln float_epsilon"
    unfolding log_softmax_first using gt ln_float_epsilon by linarith
  have 2: "ln float_epsilon < ln KL_eps"
    by (subst ln_less_cancel_iff) (simp_all add: float_epsilon_def KL_eps_def)
  have 3: "- ln float_epsilon < CE_Loss 1 [[0, 200]] [[0, 0]]"
    unfolding CE_Loss_two_classes using gt ln_float_epsilon by linarith
  from 1 2 3 show ?thesis by blast
qed

lemma log_sum_exp_arg_pos:
  "list_all (\<lambda>row. row = [] \<or> 0 < sum_list (map exp row)) m" for m :: matrix
  by (auto simp: list_all_iff intro: sum_exp_pos)

lemma KL_positive_example: "0 < KL_Loss 1 [[0, 0]] [[0, 0]]"
proof -
  have "1 * 1 * (real 2 * KL_eps) \<le> KL_Loss 1 [[0, 0]] [[0, 0]]"
    using KL_Loss_lower_bound [of 1 2 "[[0, 0]]" "[[0, 0]]" 1] by (simp add: is_matrix_def)
  then show ?thesis using KL_eps_pos by simp
qed

subsection \<open>The mutual-information loss on a batch of two swapped rows\<close>

lemma upt_2: "[0..<2] = [0, Suc 0]"
  by (simp add: upt_conv_Cons)

lemma ls01: "log_softmax (mat_div [[0, 1], [1, 0]] 1)
   = [[- ln (1 + exp 1), 1 - ln (1 + exp 1)], [1 - ln (1 + exp 1), - ln (1 + exp 1)]]"
  by (simp add: log_softmax_def mat_div_def log_softmax_row_def add.commute)

lemma outer_sum_swap2:
  "outer_sum 2 2 [[a, b], [b, a]] [[a, b], [b, a]]
     = [[a * a + b * b, 2 * (a * b)], [2 * (a * b), a * a + b * b]]"
  by (simp add: outer_sum_def mk_mat_def upt_2)

lemma symmetrise2:
  "mat_div (mat_add [[A, Q], [Q, A]] (mat_t [[A, Q], [Q, A]])) 2 = [[A, Q], [Q, A]]"
  by (simp add: mat_div_def mat_add_def mat_t_def mk_mat_def size0_def size1_def upt_2)

lemma msum2: "msum [[A, Q], [Q, A]] = 2 * A + 2 * Q"
  by (simp add: msum_def)

lemma joint_swap2:
  "MutualInformationLoss_compute_joint [[a, b], [b, a]] [[a, b], [b, a]]
     = Inr [[(a * a + b * b) / (2 * (a * a + b * b) + 2 * (2 * (a * b))),
             2 * (a * b) / (2 * (a * a + b * b) + 2 * (2 * (a * b)))],
            [2 * (a * b) / (2 * (a * a + b * b) + 2 * (2 * (a * b))),
             (a * a + b * b) / (2 * (a * a + b * b) + 2 * (2 * (a * b)))]]"
proof -
  have sz: "size0 [[a, b], [b, a]] = 2" "size1 [[a, b], [b, a]] = 2"
    by (simp_all add: size0_def size1_def)
  show ?thesis
    unfolding MutualInformationLoss_compute_joint_def Let_def sz outer_sum_swap2 symmetrise2 msum2
    by (simp add: mat_div_def)
qed

lemma margins2:
  "expand_col 2 (sum_dim1 [[d, q], [q, d]]) = [[d + q, d + q], [q + d, q + d]]"
  "expand_row 2 (sum_dim0 [[d, q], [q, d]]) = [[d + q, q + d], [d + q, q + d]]"
  by (simp_all add: expand_col_def expand_row_def sum_dim1_def sum_dim0_def size1_def mk_mat_def upt_2)

lemma floor_eps_id2:
  "EPS \<le> p \<Longrightarrow> EPS \<le> q \<Longrightarrow> EPS \<le> r \<Longrightarrow> EPS \<le> s \<Longrightarrow>
   floor_eps EPS [[p, q], [r, s]] = [[p, q], [r, s]]"
  by (simp add: floor_eps_def)

lemma information_sum2:
  "information_sum 1 2 [[d, q], [q, d]] [[h, h], [h, h]] [[h, h], [h, h]]
     = - 2 * (d * (ln d - 2 * ln h) + q * (ln q - 2 * ln h))"
  by (simp add: information_sum_def mk_mat_def msum_def upt_2 algebra_simps)

lemma info_negative:
  fixes d q :: real
  assumes d: "0 < d" and q: "0 < q" and s: "d + q = 1 / 2" and ne: "d \<noteq> q"
  shows "- 2 * (d * (ln d - 2 * ln (1 / 2)) + q * (ln q - 2 * ln (1 / 2))) < 0"
proof -
  have d4: "4 * d \<noteq> 1" using s ne by auto
  have ld: "ln d - 2 * ln (1 / 2) = - ln (1 / (4 * d))"
    using d by (simp add: ln_div ln_mult ln_realpow [of 2 2, simplified])
  have lo: "ln q - 2 * ln (1 / 2) = - ln (1 / (4 * q))"
    using q by (simp add: ln_div ln_mult ln_realpow [of 2 2, simplified])
  have "ln (1 / (4 * d)) < 1 / (4 * d) - 1"
  proof -
    have "ln (1 / (4 * d)) \<le> 1 / (4 * d) - 1" using d by (intro ln_le_minus_one) simp
    moreover have "ln (1 / (4 * d)) \<noteq> 1 / (4 * d) - 1"
      using ln_eq_minus_one [of "1 / (4 * d)"] d d4 by auto
    ultimately show ?thesis by simp
  qed
  then have "d * ln (1 / (4 * d)) < d * (1 / (4 * d) - 1)"
    using d by (intro mult_strict_left_mono)
  then have 1: "d * ln (1 / (4 * d)) < 1 / 4 - d"
    using d by (simp add: algebra_simps)
  have "ln (1 / (4 * q)) \<le> 1 / (4 * q) - 1" using q by (intro ln_le_minus_one) simp
  then have "q * ln (1 / (4 * q)) \<le> q * (1 / (4 * q) - 1)"
    using q by (intro mult_left_mono) simp_all
  then have 2: "q * ln (1 / (4 * q)) \<le> 1 / 4 - q"
    using q by (simp add: algebra_simps)
  from 1 2 s have "d * ln (1 / (4 * d)) + q * ln (1 / (4 * q)) < 0" by simp
  then show ?thesis unfolding ld lo by simp
qed

lemma ln_1_plus_e_bounds:
  "1 < ln (1 + exp 1 :: real)" "ln (1 + exp 1 :: real) < 4" "5 / 4 \<le> ln (1 + exp 1 :: real)"
proof -
  have e3: "exp 1 \<le> (3 :: real)" by (rule exp_le)
  have "ln (exp 1 :: real) < ln (1 + exp 1)"
    by (subst ln_less_cancel_iff) (simp_all add: add_pos_pos)
  then show "1 < ln (1 + exp 1 :: real)" by simp
  have "ln (1 + exp 1 :: real) < 1 + exp 1"
    by (rule ln_less_self) (simp add: add_pos_pos)
  with e3 show "ln (1 + exp 1 :: real) < 4" by simp
  have pos: "0 < 1 + exp (1 :: real)" by (simp add: add_pos_pos)
  have "ln (exp 1 / (1 + exp 1) :: real) \<le> exp 1 / (1 + exp 1) - 1"
    by (intro ln_le_minus_one) (simp add: add_pos_pos)
  also have "\<dots> = - (1 / (1 + exp 1))"
    using pos by (simp add: field_simps)
  also have "\<dots> \<le> - (1 / 4)"
    using e3 pos by (simp add: field_simps)
  finally have "ln (exp 1 / (1 + exp 1) :: real) \<le> - (1 / 4)" .
  moreover have "ln (exp 1 / (1 + exp 1) :: real) = 1 - ln (1 + exp 1)"
    using pos by (simp add: ln_div)
  ultimately show "5 / 4 \<le> ln (1 + exp 1 :: real)" by simp
qed

lemma MI_negative_example:
  "\<exists>v. MutualInformationLoss_forward 1 [[0, 1], [1, 0]] [[0, 1], [1, 0]] 1 float_epsilon = Inr v \<and> v < 0"
proof -
  define L :: real where "L = ln (1 + exp 1)"
  define a b where "a = - L" and "b = 1 - L"
  define A Q S where "A = a * a + b * b" and "Q = 2 * (a * b)" and "S = 2 * A + 2 * Q"
  define d q where "d = A / S" and "q = Q / S"
  have L: "5 / 4 \<le> L" "L < 4" unfolding L_def by (rule ln_1_plus_e_bounds)+
  have a: "a \<le> - (5 / 4)" "- 4 < a" and b: "b \<le> - (1 / 4)" "- 3 < b"
    using L by (simp_all add: a_def b_def)
  have ab: "1 / 4 * (1 / 4) \<le> a * b"
    using mult_mono [of "1 / 4" "- a" "1 / 4" "- b"] a b by simp
  have S_eq: "S = 2 * (a + b)\<^sup>2" by (simp add: S_def A_def Q_def power2_eq_square algebra_simps)
  have c: "1 \<le> - (a + b)" "- (a + b) < 7" using a b by simp_all
  have sq_eq: "(a + b)\<^sup>2 = (- (a + b)) * (- (a + b))"
    by (simp only: power2_eq_square minus_mult_minus)
  have sq: "1 \<le> (a + b)\<^sup>2" "(a + b)\<^sup>2 < 49"
    unfolding sq_eq
    using mult_mono [of 1 "- (a + b)" 1 "- (a + b)"]
      mult_strict_mono [of "- (a + b)" 7 "- (a + b)" 7] c
    by simp_all
  have S: "2 \<le> S" "S < 98" using sq by (simp_all add: S_eq)
  have Q: "1 / 8 \<le> Q" using ab by (simp add: Q_def)
  have AQ: "A = Q + 1"
  proof -
    have "A - Q = (a - b)\<^sup>2" by (simp add: A_def Q_def power2_eq_square algebra_simps)
    also have "a - b = - 1" by (simp add: a_def b_def)
    finally show ?thesis by simp
  qed
  have q_lower: "1 / 784 \<le> q"
  proof -
    have "1 / 784 * S \<le> 1 / 784 * 98" using S by (intro mult_left_mono) simp_all
    also have "\<dots> \<le> Q" using Q by simp
    finally show ?thesis using S by (simp add: q_def pos_le_divide_eq)
  qed
  have dq: "d = q + 1 / S" using S by (simp add: d_def q_def AQ add_divide_distrib)
  have "0 < 1 / S" using S by simp
  with dq have d_gt: "q < d" by simp
  have half: "d + q = 1 / 2"
  proof -
    have "d + q = (A + Q) / S" by (simp add: d_def q_def add_divide_distrib)
    also have "A + Q = S / 2" by (simp add: S_def)
    finally show ?thesis using S by simp
  qed
  have eps: "float_epsilon \<le> 1 / 784" by (simp add: float_epsilon_def)
  have fl: "float_epsilon \<le> q" "float_epsilon \<le> d" "float_epsilon \<le> 1 / 2"
    using eps q_lower d_gt by (simp_all add: float_epsilon_def)
  have ls: "log_softmax (mat_div [[0, 1], [1, 0]] 1) = [[a, b], [b, a]]"
    by (simp add: ls01 a_def b_def L_def)
  have joint: "MutualInformationLoss_compute_joint [[a, b], [b, a]] [[a, b], [b, a]]
      = Inr [[d, q], [q, d]]"
    by (simp add: joint_swap2 d_def q_def S_def A_def Q_def)
  have sz: "size1 [[0, 1], [1, 0]] = 2" "size0 [[d, q], [q, d]] = 2" "size1 [[d, q], [q, d]] = 2"
    by (simp_all add: size0_def size1_def)
  have half': "q + d = 1 / 2" using half by simp
  have args: "MutualInformationLoss_log_args 1 [[0, 1], [1, 0]] [[0, 1], [1, 0]] float_epsilon
      = Inr ([[d, q], [q, d]], [[1 / 2, 1 / 2], [1 / 2, 1 / 2]], [[1 / 2, 1 / 2], [1 / 2, 1 / 2]])"
    using fl
    by (simp add: MutualInformationLoss_log_args_def Let_def ls joint sz margins2 half half'
        floor_eps_id2)
  have "MutualInformationLoss_forward 1 [[0, 1], [1, 0]] [[0, 1], [1, 0]] 1 float_epsilon
      = Inr (- 2 * (d * (ln d - 2 * ln (1 / 2)) + q * (ln q - 2 * ln (1 / 2))))"
    unfolding MutualInformationLoss_forward_def args sz
    by (simp only: sum.case prod.case information_sum2)
  moreover have "- 2 * (d * (ln d - 2 * ln (1 / 2)) + q * (ln q - 2 * ln (1 / 2))) < 0"
  proof (rule info_negative)
    show "0 < q" using q_lower by simp
    then show "0 < d" using d_gt by simp
    show "d + q = 1 / 2" by (rule half)
    show "d \<noteq> q" using d_gt by simp
  qed
  ultimately show ?thesis by blast
qed

subsection \<open>The floored tensors at two small inputs\<close>

lemma IID_log_args_example:
  "IID_log_args [[1, 0]] [[1, 0]] float_epsilon
     = Inr ([[1, float_epsilon], [float_epsilon, float_epsilon]],
            [[1, float_epsilon], [1, float_epsilon]],
            [[1, 1], [float_epsilon, float_epsilon]])"
  by (simp add: IID_log_args_def compute_joint_def size0_def size1_def outer_sum_def mk_mat_def
      mat_add_def mat_div_def mat_t_def msum_def Let_def upt_2 expand_col_def expand_row_def
      sum_dim0_def sum_dim1_def floor_eps_def float_epsilon_def)

lemma MutualInformationLoss_log_args_example:
  "MutualInformationLoss_log_args 1 [[0, 0]] [[0, 0]] float_epsilon
     = Inr ([[1 / 4, 1 / 4], [1 / 4, 1 / 4]], [[1 / 2, 1 / 2], [1 / 2, 1 / 2]],
            [[1 / 2, 1 / 2], [1 / 2, 1 / 2]])"
  by (simp add: MutualInformationLoss_log_args_def MutualInformationLoss_compute_joint_def
      log_softmax_def log_softmax_row_def
      size0_def size1_def outer_sum_def mk_mat_def
      mat_add_def mat_div_def mat_t_def msum_def Let_def upt_2 expand_col_def expand_row_def
      sum_dim0_def sum_dim1_def floor_eps_def float_epsilon_def)

section \<open>The claims\<close>







text \<open>
  C2: after the updates \<open>v1..vn\<close>, \<open>n \<ge> 1\<close>, on a fresh accumulator, \<open>value()\<close> returns
  the arithmetic mean \<open>(v1 + ... + vn) / n\<close>.
\<close>

theorem running_average_mean:
  "vs \<noteq> [] \<Longrightarrow>
   RunningAverage_value (foldl update RunningAverage_init vs) = Inr (sum_list vs / real (length vs))"
  by (simp add: RunningAverage_value_def steps_foldl_update total_foldl_update
      RunningAverage_init_def)

theorem running_average_mean_witness:
  "[2, 4 :: real] \<noteq> [] \<and>
   RunningAverage_value (foldl update RunningAverage_init [2, 4]) = Inr 3"
  using running_average_mean [of "[2, 4]"] by simp

text \<open>
  C9: \<open>value()\<close> on an accumulator with \<open>steps = 0\<close>, as a fresh one is, returns no number:
  the division raises ZeroDivisionError.
\<close>

theorem value_before_update_raises:
  "steps ra = 0 \<Longrightarrow> RunningAverage_value ra = Inl ZeroDivisionError"
  by (simp add: RunningAverage_value_def)

theorem value_before_update_raises_witness:
  "steps RunningAverage_init = 0 \<and> RunningAverage_value RunningAverage_init = Inl ZeroDivisionError"
  using value_before_update_raises [of RunningAverage_init] by (simp add: RunningAverage_init_def)

text \<open>
  C5: \<open>get_state_dict\<close> first attempts the direct load. On success its result is returned
  unchanged and nothing else is called; exactly when it raises AssertionError the mapped
  load is called and its outcome is the outcome of the function; every other exception
  of the first load propagates.
\<close>

theorem get_state_dict_fallback:
  "hd (snd (get_state_dict ld ldm f)) = Load f \<and>
   (Load_mapped f \<in> set (snd (get_state_dict ld ldm f)) \<longleftrightarrow> ld f = Inl AssertionError) \<and>
   (ld f = Inl AssertionError \<longrightarrow> fst (get_state_dict ld ldm f) = ldm f) \<and>
   (\<forall>e. ld f = Inl e \<and> e \<noteq> AssertionError \<longrightarrow> fst (get_state_dict ld ldm f) = Inl e) \<and>
   (\<forall>sd. ld f = Inr sd \<longrightarrow> fst (get_state_dict ld ldm f) = Inr sd)"
  by (auto simp: get_state_dict_def split: sum.splits py_error.splits)

theorem get_state_dict_fallback_witness:
  "fst (get_state_dict (\<lambda>f. if f = ''gpu.pth'' then Inl AssertionError
                             else if f = ''missing.pth'' then Inl (OtherError ''FileNotFoundError'')
                             else Inr (1::nat))
                       (\<lambda>f. Inr 2) ''gpu.pth'') = Inr 2 \<and>
   fst (get_state_dict (\<lambda>f. if f = ''gpu.pth'' then Inl AssertionError
                             else if f = ''missing.pth'' then Inl (OtherError ''FileNotFoundError'')
                             else Inr (1::nat))
                       (\<lambda>f. Inr 2) ''missing.pth'') = Inl (OtherError ''FileNotFoundError'') \<and>
   fst (get_state_dict (\<lambda>f. if f = ''gpu.pth'' then Inl AssertionError
                             else if f = ''missing.pth'' then Inl (OtherError ''FileNotFoundError'')
                             else Inr (1::nat))
                       (\<lambda>f. Inr 2) ''cpu.pth'') = Inr 1"
  using
    get_state_dict_fallback [of "\<lambda>f. if f = ''gpu.pth'' then Inl AssertionError
                             else if f = ''missing.pth'' then Inl (OtherError ''FileNotFoundError'')
                             else Inr (1::nat)" "\<lambda>f. Inr 2" "''gpu.pth''"]
    get_state_dict_fallback [of "\<lambda>f. if f = ''gpu.pth'' then Inl AssertionError
                             else if f = ''missing.pth'' then Inl (OtherError ''FileNotFoundError'')
                             else Inr (1::nat)" "\<lambda>f. Inr 2" "''missing.pth''"]
    get_state_dict_fallback [of "\<lambda>f. if f = ''gpu.pth'' then Inl AssertionError
                             else if f = ''missing.pth'' then Inl (OtherError ''FileNotFoundError'')
                             else Inr (1::nat)" "\<lambda>f. Inr 2" "''cpu.pth''"]
  by simp

text \<open>
  C6: \<open>FedML_FedOpt_distributed\<close> runs the server role exactly when \<open>process_id = 0\<close> and
  the client role for every other \<open>process_id\<close>; the client's index is \<open>process_id - 1\<close>
  and the server's worker count is \<open>size - 1\<close>.
\<close>

theorem role_dispatch:
  "(is_Server (FedML_FedOpt_distributed process_id sz mt) \<longleftrightarrow> process_id = 0) \<and>
   (process_id = 0 \<longrightarrow>
      FedML_FedOpt_distributed process_id sz mt = Server (init_server process_id sz mt) \<and>
      worker_nums (init_server process_id sz mt) = [sz - 1] \<and>
      client_indices (init_server process_id sz mt) = []) \<and>
   (process_id \<noteq> 0 \<longrightarrow>
      FedML_FedOpt_distributed process_id sz mt = Client (init_client process_id sz mt) \<and>
      client_indices (init_client process_id sz mt) = [process_id - 1] \<and>
      worker_nums (init_client process_id sz mt) = [])"
  by (simp add: FedML_FedOpt_distributed_def init_server_def init_client_def Let_def)

theorem role_dispatch_witness:
  "role_calls (FedML_FedOpt_distributed 0 4 (None :: unit option)) =
     [MyModelTrainer_new, set_id (- 1), FedOptAggregator_new 3, FedOptServerManager_new 0 4,
      send_init_msg, server_manager_run] \<and>
   worker_nums (role_calls (FedML_FedOpt_distributed 0 4 (None :: unit option))) = [3] \<and>
   \<not> is_Server (FedML_FedOpt_distributed 3 4 (None :: unit option)) \<and>
   client_indices (role_calls (FedML_FedOpt_distributed 3 4 (None :: unit option))) = [2]"
  using role_dispatch [of 0 4 "None :: unit option"] role_dispatch [of 3 4 "None :: unit option"]
  by (simp add: init_server_def init_client_def Let_def)

text \<open>
  C10: for two inputs of one shape \<open>(bn, k)\<close> whose summed outer product has a nonzero
  sum of entries, \<open>compute_joint\<close> returns a \<open>k\<close> by \<open>k\<close> tensor that equals its transpose
  and whose entries sum to 1.
\<close>

theorem compute_joint_symmetric_normalised:
  "is_matrix bn k x \<Longrightarrow> is_matrix bn k y \<Longrightarrow>
   msum (outer_sum (size0 x) (size1 x) x y) \<noteq> 0 \<Longrightarrow>
   \<exists>p. compute_joint x y = Inr p \<and> is_matrix k k p \<and> mat_t p = p \<and> msum p = 1"
  by (rule compute_joint_props)

theorem compute_joint_symmetric_normalised_witness:
  "is_matrix 2 2 [[1/2, 1/2], [1/4, 3/4]] \<and> is_matrix 2 2 [[1/3, 2/3], [1, 0]] \<and>
   msum (outer_sum 2 2 [[1/2, 1/2], [1/4, 3/4]] [[1/3, 2/3], [1, 0]]) \<noteq> 0 \<and>
   compute_joint [[1/2, 1/2], [1/4, 3/4]] [[1/3, 2/3], [1, 0]]
     = Inr [[5/24, 5/16], [5/16, 1/6]] \<and>
   mat_t [[5/24, 5/16], [5/16, 1/6]] = [[5/24, 5/16], [5/16, 1/6]] \<and>
   msum [[5/24, 5/16], [5/16, 1/6]] = 1"
  using compute_joint_symmetric_normalised
          [of 2 2 "[[1/2, 1/2], [1/4, 3/4]]" "[[1/3, 2/3], [1, 0]]"]
  by (simp add: compute_joint_def size0_def size1_def outer_sum_def mk_mat_def mat_add_def
      mat_div_def mat_t_def msum_def is_matrix_def Let_def upt_conv_Cons)

text \<open>
  C8: for student and teacher logit batches of one shape, with \<open>B\<close> rows, \<open>CE_Loss\<close> with
  temperature \<open>T\<close> returns \<open>- T^2 * sum(softmax(teacher / T) * log_softmax(student / T)) / B\<close>.
\<close>

theorem CE_Loss_is_soft_cross_entropy:
  "is_matrix B C student \<Longrightarrow> is_matrix B C teacher \<Longrightarrow>
   CE_Loss T student teacher = soft_cross_entropy_formula T B C student teacher"
  by (rule CE_Loss_formula)

theorem CE_Loss_is_soft_cross_entropy_witness:
  "is_matrix 1 2 [[0, 0]] \<and> CE_Loss 2 [[0, 0]] [[0, 0]] = 4 * ln 2 \<and>
   soft_cross_entropy_formula 2 1 2 [[0, 0]] [[0, 0]] = 4 * ln 2"
  using CE_Loss_is_soft_cross_entropy [of 1 2 "[[0, 0]]" "[[0, 0]]" 2]
  by (simp add: is_matrix_def CE_Loss_def log_softmax_def softmax_def mat_div_def
      log_softmax_row_def softmax_row_def mat_mul_def msum_def size0_def)

text \<open>
  C3, as stated, fails twice. \<open>MutualInformationLoss\<close> is the negated mutual-information
  sum and is negative for the student and augmented batch \<open>[[0, 1], [1, 0]]\<close>; and
  \<open>KL_Loss\<close> is not zero for a student equal to the teacher, since \<open>10 ** (-7)\<close> is added
  to every teacher probability.
\<close>

theorem losses_nonneg_and_KL_zero_counterexample:
  "\<not> isl (MutualInformationLoss_forward 1 [[0, 1], [1, 0]] [[0, 1], [1, 0]] 1 float_epsilon) \<and>
   projr (MutualInformationLoss_forward 1 [[0, 1], [1, 0]] [[0, 1], [1, 0]] 1 float_epsilon) < 0 \<and>
   0 < KL_Loss 1 [[0, 0]] [[0, 0]]"
  using MI_negative_example KL_positive_example by auto

text \<open>
  C3, amended: for student and teacher logit batches of one shape, with at least one row
  and one class, and a temperature other than 0, \<open>KL_Loss\<close> and \<open>CE_Loss\<close> are
  non-negative, and \<open>KL_Loss\<close> is positive, not zero, when the student and teacher output
  distributions coincide. \<open>MutualInformationLoss\<close> is not non-negative: it is negative
  for the student and augmented batch \<open>[[0, 1], [1, 0]]\<close> with temperature 1.
\<close>

theorem CE_and_KL_nonneg:
  "is_matrix B C student \<Longrightarrow> is_matrix B C teacher \<Longrightarrow> 0 < B \<Longrightarrow> 0 < C \<Longrightarrow> T \<noteq> 0 \<Longrightarrow>
   0 \<le> CE_Loss T student teacher \<and>
   0 \<le> KL_Loss T student teacher \<and>
   (softmax (mat_div student T) = softmax (mat_div teacher T) \<longrightarrow>
      0 < KL_Loss T student teacher) \<and>
   projr (MutualInformationLoss_forward 1 [[0, 1], [1, 0]] [[0, 1], [1, 0]] 1 float_epsilon) < 0"
proof -
  assume s: "is_matrix B C student" and t: "is_matrix B C teacher"
    and B: "0 < B" and C: "0 < C" and T: "T \<noteq> 0"
  have ce: "0 \<le> CE_Loss T student teacher" using s t by (rule CE_Loss_nonneg)
  have kl: "T * T * (real C * KL_eps) \<le> KL_Loss T student teacher"
    using s t B by (rule KL_Loss_lower_bound)
  have "0 < T * T"
    using T by (cases "0 < T") (simp_all add: mult_neg_neg)
  moreover have "0 < real C * KL_eps"
    using C KL_eps_pos by simp
  ultimately have "0 < T * T * (real C * KL_eps)"
    by (rule mult_pos_pos)
  with kl have pos: "0 < KL_Loss T student teacher" by simp
  have mi: "projr (MutualInformationLoss_forward 1 [[0, 1], [1, 0]] [[0, 1], [1, 0]] 1
              float_epsilon) < 0"
    using MI_negative_example by auto
  from ce pos mi show ?thesis by simp
qed

theorem CE_and_KL_nonneg_witness:
  "is_matrix 1 2 [[0, 1]] \<and>
   softmax (mat_div [[0, 1]] 2) = softmax (mat_div [[0, 1]] 2) \<and>
   0 \<le> CE_Loss 2 [[0, 1]] [[0, 1]] \<and>
   0 < KL_Loss 2 [[0, 1]] [[0, 1]]"
  using CE_and_KL_nonneg [of 1 2 "[[0, 1]]" "[[0, 1]]" 2]
  by (simp add: is_matrix_def)

text \<open>
  C4, as stated, fails for \<open>CE_Loss\<close>: it applies no epsilon. For the student row
  \<open>[0, 200]\<close> the log-probability that \<open>log_softmax\<close> returns is below the logarithm of
  \<open>sys.float_info.epsilon\<close> (and so of \<open>10 ** (-7)\<close>), and the loss against the teacher
  row \<open>[0, 0]\<close> exceeds \<open>- log(epsilon)\<close>, the largest value a floor at epsilon would allow.
\<close>

theorem epsilon_floor_counterexample:
  "log_softmax (mat_div [[0, 200]] 1) ! 0 ! 0 < ln float_epsilon \<and>
   ln float_epsilon < ln KL_eps \<and>
   - ln float_epsilon < CE_Loss 1 [[0, 200]] [[0, 0]]"
  by (rule CE_no_floor_example)

text \<open>
  C4, amended: with \<open>EPS > 0\<close> and a temperature other than 0, \<open>IID_loss\<close> and
  \<open>MutualInformationLoss\<close> floor the three tensors whose logarithm they take at \<open>EPS\<close>,
  and \<open>KL_Loss\<close> adds \<open>10 ** (-7)\<close> to the teacher probabilities, so every entry of these
  tensors is at least the epsilon (where the joint distribution is defined, its
  normalising sum being nonzero). \<open>CE_Loss\<close> applies no epsilon: it takes \<open>log_softmax\<close>
  of the scaled student logits, whose logarithm has a strictly positive argument, the
  sum of the exponentials of a row; its log-probabilities are bounded below by
  \<open>log(EPS)\<close> for no \<open>EPS\<close>: for the student row \<open>[0, 2 * |log(EPS)| + 2]\<close> the first
  log-probability is below \<open>log(EPS)\<close> and \<open>CE_Loss\<close> against the teacher row \<open>[0, 0]\<close>
  exceeds \<open>- log(EPS)\<close>.
\<close>

theorem log_arguments_bounded_below:
  "0 < EPS \<Longrightarrow> T \<noteq> 0 \<Longrightarrow>
   (msum (outer_sum (size0 x_out) (size1 x_out) x_out x_tf_out) \<noteq> 0 \<and>
    IID_log_args x_out x_tf_out EPS = Inr (p_i_j, p_j, p_i) \<longrightarrow>
      list_all (list_all (\<lambda>v. EPS \<le> v)) p_i_j \<and>
      list_all (list_all (\<lambda>v. EPS \<le> v)) p_j \<and>
      list_all (list_all (\<lambda>v. EPS \<le> v)) p_i) \<and>
   (msum (outer_sum (size0 output_batch) (size1 output_batch)
           (log_softmax (mat_div output_batch T)) (log_softmax (mat_div output_batch_aug T))) \<noteq> 0 \<and>
    MutualInformationLoss_log_args T output_batch output_batch_aug EPS = Inr (pij, pj, pi') \<longrightarrow>
      list_all (list_all (\<lambda>v. EPS \<le> v)) pij \<and>
      list_all (list_all (\<lambda>v. EPS \<le> v)) pj \<and>
      list_all (list_all (\<lambda>v. EPS \<le> v)) pi') \<and>
   0 < KL_eps \<and>
   list_all (list_all (\<lambda>v. KL_eps \<le> v)) (KL_teacher T teacher_outputs) \<and>
   list_all (\<lambda>row. row = [] \<or> 0 < sum_list (map exp row)) (mat_div student T) \<and>
   log_softmax (mat_div [[0, 2 * \<bar>ln EPS\<bar> + 2]] 1) ! 0 ! 0 < ln EPS \<and>
   - ln EPS < CE_Loss 1 [[0, 2 * \<bar>ln EPS\<bar> + 2]] [[0, 0]]"
  using IID_log_args_ge [of x_out x_tf_out EPS p_i_j p_j p_i]
    MutualInformationLoss_log_args_ge [of T output_batch output_batch_aug EPS pij pj pi']
    KL_teacher_ge [of T teacher_outputs] log_sum_exp_arg_pos [of "mat_div student T"]
    CE_below_any_epsilon [of EPS] KL_eps_pos
  by simp

theorem log_arguments_bounded_below_witness:
  "0 < float_epsilon \<and>
   msum (outer_sum 1 2 [[1, 0]] [[1, 0]]) \<noteq> 0 \<and>
   IID_log_args [[1, 0]] [[1, 0]] float_epsilon
     = Inr ([[1, float_epsilon], [float_epsilon, float_epsilon]],
            [[1, float_epsilon], [1, float_epsilon]],
            [[1, 1], [float_epsilon, float_epsilon]]) \<and>
   list_all (list_all (\<lambda>v. float_epsilon \<le> v)) [[1, float_epsilon], [float_epsilon, float_epsilon]] \<and>
   msum (outer_sum 1 2 (log_softmax (mat_div [[0, 0]] 1)) (log_softmax (mat_div [[0, 0]] 1))) \<noteq> 0 \<and>
   MutualInformationLoss_log_args 1 [[0, 0]] [[0, 0]] float_epsilon
     = Inr ([[1 / 4, 1 / 4], [1 / 4, 1 / 4]], [[1 / 2, 1 / 2], [1 / 2, 1 / 2]],
            [[1 / 2, 1 / 2], [1 / 2, 1 / 2]]) \<and>
   list_all (list_all (\<lambda>v. float_epsilon \<le> v)) [[1 / 4, 1 / 4], [1 / 4, 1 / 4]] \<and>
   list_all (list_all (\<lambda>v. KL_eps \<le> v)) (KL_teacher 1 [[0, 0]])"
  using log_arguments_bounded_below [where EPS = float_epsilon and x_out = "[[1, 0]]"
      and x_tf_out = "[[1, 0]]" and p_i_j = "[[1, float_epsilon], [float_epsilon, float_epsilon]]"
      and p_j = "[[1, float_epsilon], [1, float_epsilon]]"
      and p_i = "[[1, 1], [float_epsilon, float_epsilon]]"
      and T = 1 and output_batch = "[[0, 0]]" and output_batch_aug = "[[0, 0]]"
      and pij = "[[1 / 4, 1 / 4], [1 / 4, 1 / 4]]" and pj = "[[1 / 2, 1 / 2], [1 / 2, 1 / 2]]"
      and pi' = "[[1 / 2, 1 / 2], [1 / 2, 1 / 2]]" and teacher_outputs = "[[0, 0]]"
      and student = "[[0, 200]]"]
    IID_log_args_example MutualInformationLoss_log_args_example
  by (simp add: size0_def size1_def outer_sum_def mk_mat_def msum_def upt_2
        log_softmax_def log_softmax_row_def mat_div_def float_epsilon_def)

end
